theory Spec2Isabelle
  imports Main
begin

section \<open>The payroll engine of ai-payroll-system\<close>

text \<open>
  A shallow embedding of the payroll model (\<^verbatim>\<open>backend/models/Payroll.js\<close>, the second
  module of the file kept as \<^verbatim>\<open>src/backend/models/Department.js\<close>), of the employee model
  (\<^verbatim>\<open>backend/models/Employee.js\<close>) and of the payroll controller
  (\<^verbatim>\<open>backend/controllers/payrollController.js\<close>, kept as \<^verbatim>\<open>src/unnamed/part_002\<close>).

  Conventions of the embedding.
  \<^item> A JavaScript Number is an \<open>int\<close>: money amounts, days, months and years are whole
    numbers here, on which the double arithmetic of the source is exact. A value that is
    \<^verbatim>\<open>undefined\<close> or \<^verbatim>\<open>NaN\<close> is \<open>None\<close>; only the paths that the schema declares
    \<^verbatim>\<open>required\<close> without a default can be so, every other path has a default.
  \<^item> The MongoDB collection is the list of its documents; each handler takes the collection
    and returns its response together with the collection afterwards.
  \<^item> The current time is a parameter \<open>now\<close> (milliseconds), since \<^verbatim>\<open>new Date()\<close> and
    \<^verbatim>\<open>Date.now\<close> read the clock.
  \<^item> Fields of the schema that no handler below reads or writes (bankDetails, salarySlip*,
    approvedBy, approvedAt, notes, comments, timestamps) are left out of the record.
\<close>

subsection \<open>Calendar dates as \<^verbatim>\<open>new Date(year, monthIndex, day)\<close> builds them\<close>

record date =
  d_year :: int
  d_month :: int
  d_day :: int

definition leap_year :: "int \<Rightarrow> bool" where
  "leap_year y = (y mod 4 = 0 \<and> (y mod 100 \<noteq> 0 \<or> y mod 400 = 0))"

definition days_in_month :: "int \<Rightarrow> int \<Rightarrow> int" where
  "days_in_month y m =
     (if m = 2 then (if leap_year y then 29 else 28)
      else if m = 4 \<or> m = 6 \<or> m = 9 \<or> m = 11 then 30
      else 31)"

text \<open>
  \<^verbatim>\<open>new Date(year, monthIndex, day)\<close> for \<open>day\<close> 1 or 0, the two values the controller
  uses. A year from 0 to 99 means 1900 + year; a month index outside 0..11 carries into the
  year; day 0 is the last day of the month before.
\<close>

definition new_Date :: "int \<Rightarrow> int \<Rightarrow> int \<Rightarrow> date" where
  "new_Date y monthIndex day =
     (let full = (if 0 \<le> y \<and> y \<le> 99 then 1900 + y else y);
          months = full * 12 + monthIndex - (if day = 0 then 1 else 0);
          yy = months div 12;
          mm = months mod 12 + 1
      in \<lparr>d_year = yy, d_month = mm,
          d_day = (if day = 0 then days_in_month yy mm else day)\<rparr>)"

subsection \<open>The employee schema\<close>

datatype employee_status = Active | Inactive | Terminated | On_Leave

record salary =
  basic :: "int option"
  salary_hra :: int
  salary_allowances :: int

record employee_deductions =
  emp_tax :: int
  emp_providentFund :: int
  emp_insurance :: int
  emp_other :: int

record employee =
  emp_id :: nat
  employeeId :: string
  status :: employee_status
  emp_salary :: salary
  emp_deductions :: employee_deductions

text \<open>The virtual \<^verbatim>\<open>grossSalary\<close> of an employee: \<^verbatim>\<open>basic + hra + allowances\<close>, which is
  \<^verbatim>\<open>NaN\<close> when \<^verbatim>\<open>basic\<close> is missing.\<close>

definition emp_grossSalary :: "employee \<Rightarrow> int option" where
  "emp_grossSalary e =
     map_option (\<lambda>b. b + salary_hra (emp_salary e) + salary_allowances (emp_salary e))
       (basic (emp_salary e))"

subsection \<open>The payroll schema\<close>

datatype payment_status = Pending | Processing | Paid | Failed | On_Hold

datatype payment_method = Bank_Transfer | Check | Cash | UPI

datatype approval_status = Approval_Pending | Approved | Rejected

record leave_breakdown =
  casual :: int
  sick :: int
  paid :: int
  unpaid :: int

record overtime_breakdown =
  hours :: int
  rate :: int
  amount :: int

record earnings_breakdown =
  basicSalary :: "int option"
  hra :: int
  allowances :: int
  bonuses :: int
  incentives :: int
  overtime :: overtime_breakdown
  arrears :: int
  other_earnings :: int

record deductions_breakdown =
  tax :: int
  providentFund :: int
  employeeStateInsurance :: int
  professionalTax :: int
  insurance :: int
  loan :: int
  advance :: int
  lateDeduction :: int
  other_deductions :: int

record reimbursements_breakdown =
  travel :: int
  medical :: int
  food :: int
  communication :: int
  other_reimbursements :: int

record payroll =
  doc_id :: nat
  employee_ref :: nat
  month :: "int option"
  year :: "int option"
  payPeriodStart :: date
  payPeriodEnd :: date
  workingDays :: int
  daysPresent :: int
  daysAbsent :: int
  leaves :: leave_breakdown
  holidays :: int
  earnings :: earnings_breakdown
  deductions :: deductions_breakdown
  reimbursements :: reimbursements_breakdown
  grossSalary :: "int option"
  totalEarnings :: "int option"
  totalDeductions :: "int option"
  totalReimbursements :: int
  netSalary :: "int option"
  paymentStatus :: payment_status
  paymentMethod :: payment_method
  paymentDate :: "nat option"
  transactionId :: "string option"
  approvalStatus :: approval_status
  processedBy :: nat
  processedAt :: nat

type_synonym collection = "payroll list"

subsection \<open>Validation, the pre-save hook and the unique index\<close>

datatype db_error = ValidationError "string list" | DuplicateKey

text \<open>
  The validators of the schema: \<^verbatim>\<open>required\<close> on month, year, earnings.basicSalary,
  grossSalary, totalEarnings, totalDeductions and netSalary, and \<^verbatim>\<open>min: 1, max: 12\<close> on
  month. The result lists the paths that fail, in schema order.
\<close>

definition required :: "string \<Rightarrow> int option \<Rightarrow> string list" where
  "required path v = (case v of None \<Rightarrow> [path] | Some _ \<Rightarrow> [])"

definition validate_month :: "int option \<Rightarrow> string list" where
  "validate_month v =
     (case v of None \<Rightarrow> [''month'']
      | Some m \<Rightarrow> if m < 1 \<or> 12 < m then [''month''] else [])"

definition validate :: "payroll \<Rightarrow> string list" where
  "validate d =
     validate_month (month d) @
     required ''year'' (year d) @
     required ''earnings.basicSalary'' (basicSalary (earnings d)) @
     required ''grossSalary'' (grossSalary d) @
     required ''totalEarnings'' (totalEarnings d) @
     required ''totalDeductions'' (totalDeductions d) @
     required ''netSalary'' (netSalary d)"

text \<open>
  \<^verbatim>\<open>payrollSchema.pre('save', ...)\<close>: the three sums, then the net salary floored at zero.
  The first summand of the earnings is the only one that can be missing; the sum is then
  \<^verbatim>\<open>NaN\<close>, and so is the net salary.
\<close>

definition sum_earnings :: "earnings_breakdown \<Rightarrow> int option" where
  "sum_earnings e =
     map_option (\<lambda>b. b + hra e + allowances e + bonuses e + incentives e +
                      amount (overtime e) + arrears e + other_earnings e)
       (basicSalary e)"

definition sum_deductions :: "deductions_breakdown \<Rightarrow> int" where
  "sum_deductions d =
     tax d + providentFund d + employeeStateInsurance d + professionalTax d +
     insurance d + loan d + advance d + lateDeduction d + other_deductions d"

definition sum_reimbursements :: "reimbursements_breakdown \<Rightarrow> int" where
  "sum_reimbursements r =
     travel r + medical r + food r + communication r + other_reimbursements r"

definition pre_save :: "payroll \<Rightarrow> payroll" where
  "pre_save d =
     (let te = sum_earnings (earnings d);
          td = sum_deductions (deductions d);
          tr = sum_reimbursements (reimbursements d)
      in d\<lparr>totalEarnings := te,
           totalDeductions := Some td,
           totalReimbursements := tr,
           netSalary := map_option (\<lambda>t. max 0 (t - td + tr)) te\<rparr>)"

text \<open>The compound unique index \<^verbatim>\<open>{ employee: 1, month: 1, year: 1 }\<close>.\<close>

definition index_key :: "payroll \<Rightarrow> nat \<times> int option \<times> int option" where
  "index_key d = (employee_ref d, month d, year d)"

definition fresh_id :: "collection \<Rightarrow> nat" where
  "fresh_id store = Suc (fold max (map doc_id store) 0)"

definition insertOne :: "payroll \<Rightarrow> collection \<Rightarrow> db_error + collection" where
  "insertOne d store =
     (if index_key d \<in> set (map index_key store) then Inl DuplicateKey
      else Inr (store @ [d]))"

text \<open>
  \<^verbatim>\<open>Payroll.create(data)\<close> is \<^verbatim>\<open>new Payroll(data).save()\<close> on a new document. Mongoose
  validates inside a \<^verbatim>\<open>pre('save')\<close> hook of its own, which it puts in front of the
  \<^verbatim>\<open>pre('save')\<close> hooks that the schema declares (its documentation of middleware says
  that \<^verbatim>\<open>save()\<close> triggers validation through a built-in pre-save hook, and that
  validation hooks are called before any pre-save hook). So the validators see the
  document as the caller built it, the hook of the schema runs only on a document that
  passed them, and the insert, with the check of the unique index, comes last. A new
  document is validated on every \<^verbatim>\<open>required\<close> path, set or not.
\<close>

definition Payroll_create :: "payroll \<Rightarrow> collection \<Rightarrow> db_error + payroll \<times> collection" where
  "Payroll_create d store =
     (let doc = d\<lparr>doc_id := fresh_id store\<rparr> in
      if validate doc \<noteq> [] then Inl (ValidationError (validate doc))
      else (case insertOne (pre_save doc) store of
              Inl e \<Rightarrow> Inl e
            | Inr store' \<Rightarrow> Inr (pre_save doc, store')))"

definition Payroll_findById :: "collection \<Rightarrow> nat \<Rightarrow> payroll option" where
  "Payroll_findById store i = find (\<lambda>d. doc_id d = i) store"

definition Payroll_findOne :: "collection \<Rightarrow> int \<Rightarrow> int \<Rightarrow> payroll option" where
  "Payroll_findOne store m y = find (\<lambda>d. month d = Some m \<and> year d = Some y) store"

text \<open>Writing a loaded document back: the stored document of the same \<^verbatim>\<open>_id\<close> is replaced.\<close>

definition replace_doc :: "payroll \<Rightarrow> collection \<Rightarrow> collection" where
  "replace_doc d store = map (\<lambda>x. if doc_id x = doc_id d then d else x) store"

text \<open>\<^verbatim>\<open>doc.save()\<close> on a document loaded from the collection: validation, the hook, the write.\<close>

definition save :: "payroll \<Rightarrow> collection \<Rightarrow> db_error + payroll \<times> collection" where
  "save d store =
     (if validate d \<noteq> [] then Inl (ValidationError (validate d))
      else Inr (pre_save d, replace_doc (pre_save d) store))"

subsection \<open>\<^verbatim>\<open>processPayroll\<close>\<close>

text \<open>
  The document that \<^verbatim>\<open>new Payroll(payrollData)\<close> yields for one employee: the fields of
  the object literal, and the schema's default for every path the literal leaves out
  (holidays, totalReimbursements, paymentStatus, paymentMethod, approvalStatus,
  processedAt). The literal gives no totalEarnings, totalDeductions or netSalary, and
  these paths have no default.
\<close>

definition payrollData :: "employee \<Rightarrow> int \<Rightarrow> int \<Rightarrow> nat \<Rightarrow> nat \<Rightarrow> payroll" where
  "payrollData e m y user now =
     \<lparr>doc_id = 0,
      employee_ref = emp_id e,
      month = Some m,
      year = Some y,
      payPeriodStart = new_Date y (m - 1) 1,
      payPeriodEnd = new_Date y m 0,
      workingDays = 30,
      daysPresent = 30,
      daysAbsent = 0,
      leaves = \<lparr>casual = 0, sick = 0, paid = 0, unpaid = 0\<rparr>,
      holidays = 0,
      earnings = \<lparr>basicSalary = basic (emp_salary e),
                  hra = salary_hra (emp_salary e),
                  allowances = salary_allowances (emp_salary e),
                  bonuses = 0,
                  incentives = 0,
                  overtime = \<lparr>hours = 0, rate = 0, amount = 0\<rparr>,
                  arrears = 0,
                  other_earnings = 0\<rparr>,
      deductions = \<lparr>tax = emp_tax (emp_deductions e),
                    providentFund = emp_providentFund (emp_deductions e),
                    employeeStateInsurance = 0,
                    professionalTax = 0,
                    insurance = emp_insurance (emp_deductions e),
                    loan = 0,
                    advance = 0,
                    lateDeduction = 0,
                    other_deductions = emp_other (emp_deductions e)\<rparr>,
      reimbursements = \<lparr>travel = 0, medical = 0, food = 0, communication = 0,
                        other_reimbursements = 0\<rparr>,
      grossSalary = emp_grossSalary e,
      totalEarnings = None,
      totalDeductions = None,
      totalReimbursements = 0,
      netSalary = None,
      paymentStatus = Pending,
      paymentMethod = Bank_Transfer,
      paymentDate = None,
      transactionId = None,
      approvalStatus = Approval_Pending,
      processedBy = user,
      processedAt = now\<rparr>"

record summary =
  processed :: nat
  failed :: nat
  errors :: "(string \<times> db_error) list"

datatype response =
    Provide_Month_And_Year
  | Already_Processed int int
  | Payroll_Processed summary
  | Record_Not_Found
  | Payroll_Updated payroll
  | Marked_As_Paid payroll
  | Server_Error db_error

text \<open>
  The loop over the employees, with its \<^verbatim>\<open>try\<close>/\<^verbatim>\<open>catch\<close>: a created document is
  pushed on \<^verbatim>\<open>payrolls\<close>, a failure is pushed on \<^verbatim>\<open>errors\<close> under the employee's
  \<^verbatim>\<open>employeeId\<close>, and the loop goes on.
\<close>

fun for_each_employee ::
  "int \<Rightarrow> int \<Rightarrow> nat \<Rightarrow> nat \<Rightarrow> employee list \<Rightarrow>
   payroll list \<times> (string \<times> db_error) list \<times> collection \<Rightarrow>
   payroll list \<times> (string \<times> db_error) list \<times> collection" where
  "for_each_employee m y user now [] acc = acc"
| "for_each_employee m y user now (e # es) (payrolls, errs, store) =
     (case Payroll_create (payrollData e m y user now) store of
        Inr (p, store') \<Rightarrow> for_each_employee m y user now es (payrolls @ [p], errs, store')
      | Inl err \<Rightarrow>
          for_each_employee m y user now es (payrolls, errs @ [(employeeId e, err)], store))"

text \<open>\<^verbatim>\<open>!v\<close> on a number of the request body: true when it is missing or zero.\<close>

definition falsy :: "int option \<Rightarrow> bool" where
  "falsy v = (case v of None \<Rightarrow> True | Some n \<Rightarrow> n = 0)"

definition processPayroll ::
  "int option \<Rightarrow> int option \<Rightarrow> nat \<Rightarrow> nat \<Rightarrow> employee list \<Rightarrow> collection \<Rightarrow>
   response \<times> collection" where
  "processPayroll body_month body_year user now employees store =
     (case (body_month, body_year) of
        (Some m, Some y) \<Rightarrow>
          if falsy (Some m) \<or> falsy (Some y) then (Provide_Month_And_Year, store)
          else (case Payroll_findOne store m y of
                  Some existing \<Rightarrow> (Already_Processed m y, store)
                | None \<Rightarrow>
                    (case for_each_employee m y user now
                            (filter (\<lambda>e. status e = Active) employees) ([], [], store) of
                       (payrolls, errs, store') \<Rightarrow>
                         (Payroll_Processed
                            \<lparr>processed = length payrolls, failed = length errs, errors = errs\<rparr>,
                          store')))
      | _ \<Rightarrow> (Provide_Month_And_Year, store))"

subsection \<open>\<^verbatim>\<open>updatePayroll\<close>\<close>

text \<open>
  The request body of an update, as the list of the paths it sets. Each entry is one
  \<^verbatim>\<open>$set\<close> of a leaf path to a number or to a value of its enum (a body such as
  \<^verbatim>\<open>{ "earnings.bonuses": 500, "totalEarnings": 1 }\<close>); setting a path to \<^verbatim>\<open>null\<close> and
  replacing a whole nested object are not covered.
\<close>

datatype earnings_path =
  E_basicSalary | E_hra | E_allowances | E_bonuses | E_incentives | E_overtime_amount |
  E_arrears | E_other

datatype deductions_path =
  D_tax | D_providentFund | D_employeeStateInsurance | D_professionalTax | D_insurance |
  D_loan | D_advance | D_lateDeduction | D_other

datatype reimbursements_path = R_travel | R_medical | R_food | R_communication | R_other

datatype assignment =
    Set_employee nat
  | Set_month int
  | Set_year int
  | Set_workingDays int
  | Set_daysPresent int
  | Set_daysAbsent int
  | Set_earnings earnings_path int
  | Set_deductions deductions_path int
  | Set_reimbursements reimbursements_path int
  | Set_grossSalary int
  | Set_totalEarnings int
  | Set_totalDeductions int
  | Set_totalReimbursements int
  | Set_netSalary int
  | Set_paymentStatus payment_status
  | Set_approvalStatus approval_status

fun set_earnings :: "earnings_path \<Rightarrow> int \<Rightarrow> earnings_breakdown \<Rightarrow> earnings_breakdown" where
  "set_earnings E_basicSalary v e = e\<lparr>basicSalary := Some v\<rparr>"
| "set_earnings E_hra v e = e\<lparr>hra := v\<rparr>"
| "set_earnings E_allowances v e = e\<lparr>allowances := v\<rparr>"
| "set_earnings E_bonuses v e = e\<lparr>bonuses := v\<rparr>"
| "set_earnings E_incentives v e = e\<lparr>incentives := v\<rparr>"
| "set_earnings E_overtime_amount v e = e\<lparr>overtime := (overtime e)\<lparr>amount := v\<rparr>\<rparr>"
| "set_earnings E_arrears v e = e\<lparr>arrears := v\<rparr>"
| "set_earnings E_other v e = e\<lparr>other_earnings := v\<rparr>"

fun set_deductions ::
  "deductions_path \<Rightarrow> int \<Rightarrow> deductions_breakdown \<Rightarrow> deductions_breakdown" where
  "set_deductions D_tax v d = d\<lparr>tax := v\<rparr>"
| "set_deductions D_providentFund v d = d\<lparr>providentFund := v\<rparr>"
| "set_deductions D_employeeStateInsurance v d = d\<lparr>employeeStateInsurance := v\<rparr>"
| "set_deductions D_professionalTax v d = d\<lparr>professionalTax := v\<rparr>"
| "set_deductions D_insurance v d = d\<lparr>insurance := v\<rparr>"
| "set_deductions D_loan v d = d\<lparr>loan := v\<rparr>"
| "set_deductions D_advance v d = d\<lparr>advance := v\<rparr>"
| "set_deductions D_lateDeduction v d = d\<lparr>lateDeduction := v\<rparr>"
| "set_deductions D_other v d = d\<lparr>other_deductions := v\<rparr>"

fun set_reimbursements ::
  "reimbursements_path \<Rightarrow> int \<Rightarrow> reimbursements_breakdown \<Rightarrow> reimbursements_breakdown" where
  "set_reimbursements R_travel v r = r\<lparr>travel := v\<rparr>"
| "set_reimbursements R_medical v r = r\<lparr>medical := v\<rparr>"
| "set_reimbursements R_food v r = r\<lparr>food := v\<rparr>"
| "set_reimbursements R_communication v r = r\<lparr>communication := v\<rparr>"
| "set_reimbursements R_other v r = r\<lparr>other_reimbursements := v\<rparr>"

fun apply_set :: "assignment \<Rightarrow> payroll \<Rightarrow> payroll" where
  "apply_set (Set_employee v) d = d\<lparr>employee_ref := v\<rparr>"
| "apply_set (Set_month v) d = d\<lparr>month := Some v\<rparr>"
| "apply_set (Set_year v) d = d\<lparr>year := Some v\<rparr>"
| "apply_set (Set_workingDays v) d = d\<lparr>workingDays := v\<rparr>"
| "apply_set (Set_daysPresent v) d = d\<lparr>daysPresent := v\<rparr>"
| "apply_set (Set_daysAbsent v) d = d\<lparr>daysAbsent := v\<rparr>"
| "apply_set (Set_earnings p v) d = d\<lparr>earnings := set_earnings p v (earnings d)\<rparr>"
| "apply_set (Set_deductions p v) d = d\<lparr>deductions := set_deductions p v (deductions d)\<rparr>"
| "apply_set (Set_reimbursements p v) d =
     d\<lparr>reimbursements := set_reimbursements p v (reimbursements d)\<rparr>"
| "apply_set (Set_grossSalary v) d = d\<lparr>grossSalary := Some v\<rparr>"
| "apply_set (Set_totalEarnings v) d = d\<lparr>totalEarnings := Some v\<rparr>"
| "apply_set (Set_totalDeductions v) d = d\<lparr>totalDeductions := Some v\<rparr>"
| "apply_set (Set_totalReimbursements v) d = d\<lparr>totalReimbursements := v\<rparr>"
| "apply_set (Set_netSalary v) d = d\<lparr>netSalary := Some v\<rparr>"
| "apply_set (Set_paymentStatus v) d = d\<lparr>paymentStatus := v\<rparr>"
| "apply_set (Set_approvalStatus v) d = d\<lparr>approvalStatus := v\<rparr>"

text \<open>\<^verbatim>\<open>runValidators: true\<close>: the validators of the paths that the update sets. Of the
  paths above only month has one that a number can fail.\<close>

fun update_validators :: "assignment \<Rightarrow> string list" where
  "update_validators (Set_month v) = validate_month (Some v)"
| "update_validators _ = []"

text \<open>
  \<^verbatim>\<open>Payroll.findByIdAndUpdate(id, body, { new: true, runValidators: true })\<close>: an update
  query. It goes to the database without loading a document, so no \<^verbatim>\<open>save\<close> hook runs;
  the database applies the assignments and checks the unique index against the other
  documents. The result is the document after the update, or \<^verbatim>\<open>null\<close>.
\<close>

definition Payroll_findByIdAndUpdate ::
  "nat \<Rightarrow> assignment list \<Rightarrow> collection \<Rightarrow> db_error + payroll option \<times> collection" where
  "Payroll_findByIdAndUpdate i body store =
     (if concat (map update_validators body) \<noteq> []
      then Inl (ValidationError (concat (map update_validators body)))
      else (case Payroll_findById store i of
              None \<Rightarrow> Inr (None, store)
            | Some d \<Rightarrow>
                (let d' = fold apply_set body d in
                 if index_key d' \<in> set (map index_key (filter (\<lambda>x. doc_id x \<noteq> i) store))
                 then Inl DuplicateKey
                 else Inr (Some d', replace_doc d' store))))"

definition updatePayroll :: "nat \<Rightarrow> assignment list \<Rightarrow> collection \<Rightarrow> response \<times> collection" where
  "updatePayroll i body store =
     (case Payroll_findById store i of
        None \<Rightarrow> (Record_Not_Found, store)
      | Some found \<Rightarrow>
          (case Payroll_findByIdAndUpdate i body store of
             Inl e \<Rightarrow> (Server_Error e, store)
           | Inr (None, store') \<Rightarrow> (Record_Not_Found, store')
           | Inr (Some d, store') \<Rightarrow> (Payroll_Updated d, store')))"

subsection \<open>\<^verbatim>\<open>markAsPaid\<close>\<close>

text \<open>The instance method \<^verbatim>\<open>payrollSchema.methods.markAsPaid\<close>.\<close>

definition payroll_markAsPaid ::
  "string option \<Rightarrow> nat \<Rightarrow> payroll \<Rightarrow> collection \<Rightarrow> db_error + payroll \<times> collection" where
  "payroll_markAsPaid t now d store =
     save (d\<lparr>paymentStatus := Paid, paymentDate := Some now, transactionId := t\<rparr>) store"

text \<open>The controller \<^verbatim>\<open>exports.markAsPaid\<close>.\<close>

definition markAsPaid :: "nat \<Rightarrow> string option \<Rightarrow> nat \<Rightarrow> collection \<Rightarrow> response \<times> collection" where
  "markAsPaid i t now store =
     (case Payroll_findById store i of
        None \<Rightarrow> (Record_Not_Found, store)
      | Some d \<Rightarrow>
          (case payroll_markAsPaid t now d store of
             Inl e \<Rightarrow> (Server_Error e, store)
           | Inr (d', store') \<Rightarrow> (Marked_As_Paid d', store')))"

subsection \<open>\<^verbatim>\<open>getTotalPayroll\<close>\<close>

record payroll_totals =
  totalGross :: int
  sum_totalEarnings :: int
  sum_totalDeductions :: int
  totalNet :: int
  count :: nat

text \<open>The \<^verbatim>\<open>$match\<close> stage.\<close>

definition match_stage :: "int \<Rightarrow> int \<Rightarrow> collection \<Rightarrow> payroll list" where
  "match_stage m y store =
     filter (\<lambda>d. month d = Some m \<and> year d = Some y \<and> paymentStatus d \<noteq> Failed) store"

text \<open>\<^verbatim>\<open>$sum\<close> adds the numbers and passes over a field that is missing.\<close>

definition numeric :: "int option \<Rightarrow> int" where
  "numeric v = (case v of None \<Rightarrow> 0 | Some n \<Rightarrow> n)"

definition accumulate :: "payroll \<Rightarrow> payroll_totals \<Rightarrow> payroll_totals" where
  "accumulate d acc =
     \<lparr>totalGross = totalGross acc + numeric (grossSalary d),
      sum_totalEarnings = sum_totalEarnings acc + numeric (totalEarnings d),
      sum_totalDeductions = sum_totalDeductions acc + numeric (totalDeductions d),
      totalNet = totalNet acc + numeric (netSalary d),
      count = count acc + 1\<rparr>"

definition zero_totals :: payroll_totals where
  "zero_totals =
     \<lparr>totalGross = 0, sum_totalEarnings = 0, sum_totalDeductions = 0, totalNet = 0, count = 0\<rparr>"

text \<open>The \<^verbatim>\<open>$group\<close> stage with \<^verbatim>\<open>_id: null\<close>: one group when a document came through,
  none otherwise.\<close>

definition group_stage :: "payroll list \<Rightarrow> payroll_totals list" where
  "group_stage docs = (if docs = [] then [] else [fold accumulate docs zero_totals])"

definition getTotalPayroll :: "collection \<Rightarrow> int \<Rightarrow> int \<Rightarrow> payroll_totals" where
  "getTotalPayroll store m y =
     (case group_stage (match_stage m y store) of
        [] \<Rightarrow> zero_totals
      | r # _ \<Rightarrow> r)"

subsection \<open>The properties of a stored record, and example data\<close>

text \<open>
  The totals of a record agree with its components: the three sums of section 3 of the
  specification, and the net salary floored at zero.
\<close>

definition totals_hold :: "payroll \<Rightarrow> bool" where
  "totals_hold d =
     (case (basicSalary (earnings d), totalEarnings d, totalDeductions d, netSalary d) of
        (Some b, Some te, Some td, Some net) \<Rightarrow>
          te = b + hra (earnings d) + allowances (earnings d) + bonuses (earnings d) +
               incentives (earnings d) + amount (overtime (earnings d)) +
               arrears (earnings d) + other_earnings (earnings d)
          \<and> td = tax (deductions d) + providentFund (deductions d) +
                 employeeStateInsurance (deductions d) + professionalTax (deductions d) +
                 insurance (deductions d) + loan (deductions d) + advance (deductions d) +
                 lateDeduction (deductions d) + other_deductions (deductions d)
          \<and> totalReimbursements d =
               travel (reimbursements d) + medical (reimbursements d) +
               food (reimbursements d) + communication (reimbursements d) +
               other_reimbursements (reimbursements d)
          \<and> net = max 0 (te - td + totalReimbursements d)
      | _ \<Rightarrow> False)"

text \<open>The gross salary of a record is the sum of its three fixed earnings.\<close>

definition gross_holds :: "payroll \<Rightarrow> bool" where
  "gross_holds d =
     (case (grossSalary d, basicSalary (earnings d)) of
        (Some g, Some b) \<Rightarrow> g = b + hra (earnings d) + allowances (earnings d)
      | _ \<Rightarrow> False)"

text \<open>No two documents share an \<^verbatim>\<open>_id\<close>; no two share (employee, month, year).\<close>

definition unique_ids :: "collection \<Rightarrow> bool" where
  "unique_ids store = distinct (map doc_id store)"

definition unique_triples :: "collection \<Rightarrow> bool" where
  "unique_triples store = distinct (map index_key store)"

text \<open>The employee of the example computation in section 8 of the specification, and the
  record that the pre-save hook makes of the document built for March 2024.\<close>

definition example_employee :: employee where
  "example_employee =
     \<lparr>emp_id = 1, employeeId = ''EMP00001'', status = Active,
      emp_salary = \<lparr>basic = Some 3000, salary_hra = 500, salary_allowances = 200\<rparr>,
      emp_deductions =
        \<lparr>emp_tax = 300, emp_providentFund = 150, emp_insurance = 50, emp_other = 0\<rparr>\<rparr>"

definition example_record :: payroll where
  "example_record = pre_save ((payrollData example_employee 3 2024 7 0)\<lparr>doc_id := 1\<rparr>)"

text \<open>Ten active employees; the fourth has no basic salary, the others are configured as
  the example employee.\<close>

definition numbered_employee :: "nat \<Rightarrow> string \<Rightarrow> int option \<Rightarrow> employee" where
  "numbered_employee n eid b =
     example_employee\<lparr>emp_id := n, employeeId := eid,
       emp_salary := \<lparr>basic = b, salary_hra = 500, salary_allowances = 200\<rparr>\<rparr>"

definition ten_employees :: "employee list" where
  "ten_employees =
     [numbered_employee 1 ''EMP00001'' (Some 3000),
      numbered_employee 2 ''EMP00002'' (Some 3000),
      numbered_employee 3 ''EMP00003'' (Some 3000),
      numbered_employee 4 ''EMP00004'' None,
      numbered_employee 5 ''EMP00005'' (Some 3000),
      numbered_employee 6 ''EMP00006'' (Some 3000),
      numbered_employee 7 ''EMP00007'' (Some 3000),
      numbered_employee 8 ''EMP00008'' (Some 3000),
      numbered_employee 9 ''EMP00009'' (Some 3000),
      numbered_employee 10 ''EMP00010'' (Some 3000)]"

text \<open>A second valid document, for another employee in the same period, and the record
  that creating it in a collection holding the example record stores.\<close>

definition second_data :: payroll where
  "second_data = example_record\<lparr>employee_ref := 2\<rparr>"

definition second_record :: payroll where
  "second_record = pre_save (second_data\<lparr>doc_id := 2\<rparr>)"

section \<open>Lemmas\<close>

subsection \<open>The example record\<close>

lemma example_record_simps:
  "doc_id example_record = 1"
  "employee_ref example_record = 1"
  "month example_record = Some 3"
  "year example_record = Some 2024"
  "basicSalary (earnings example_record) = Some 3000"
  "hra (earnings example_record) = 500"
  "allowances (earnings example_record) = 200"
  "bonuses (earnings example_record) = 0"
  "grossSalary example_record = Some 3700"
  "totalEarnings example_record = Some 3700"
  "totalDeductions example_record = Some 500"
  "totalReimbursements example_record = 0"
  "netSalary example_record = Some 3200"
  "paymentStatus example_record = Pending"
  "sum_earnings (earnings example_record) = Some 3700"
  "sum_deductions (deductions example_record) = 500"
  "sum_reimbursements (reimbursements example_record) = 0"
  "validate example_record = []"
  by (simp_all add: example_record_def example_employee_def pre_save_def payrollData_def Let_def
      sum_earnings_def sum_deductions_def sum_reimbursements_def emp_grossSalary_def
      validate_def validate_month_def required_def)

subsection \<open>Dates\<close>

lemma month_carry:
  "0 \<le> k \<Longrightarrow> k < 12 \<Longrightarrow> (y * 12 + k) div 12 = y \<and> (y * 12 + k) mod 12 = (k::int)"
  by simp

lemma new_Date_first_day:
  "1 \<le> m \<Longrightarrow> m \<le> 12 \<Longrightarrow> y < 0 \<or> 99 < y \<Longrightarrow>
   new_Date y (m - 1) 1 = \<lparr>d_year = y, d_month = m, d_day = 1\<rparr>"
  using month_carry [of "m - 1" y] by (auto simp: new_Date_def Let_def)

lemma new_Date_last_day:
  "1 \<le> m \<Longrightarrow> m \<le> 12 \<Longrightarrow> y < 0 \<or> 99 < y \<Longrightarrow>
   new_Date y m 0 = \<lparr>d_year = y, d_month = m, d_day = days_in_month y m\<rparr>"
proof -
  assume a: "1 \<le> m" "m \<le> 12" "y < 0 \<or> 99 < y"
  have full: "(if 0 \<le> y \<and> y \<le> 99 then 1900 + y else y) = y" using a by auto
  have e: "y * 12 + m - 1 = y * 12 + (m - 1)" by simp
  have d: "(y * 12 + m - 1) div 12 = y" "(y * 12 + m - 1) mod 12 = m - 1"
    unfolding e using a month_carry [of "m - 1" y] by auto
  show ?thesis by (simp add: new_Date_def Let_def full d)
qed

subsection \<open>What \<^verbatim>\<open>processPayroll\<close> hands to \<^verbatim>\<open>Payroll.create\<close>\<close>

lemma validate_doc_id: "validate (d\<lparr>doc_id := i\<rparr>) = validate d"
  by (simp add: validate_def)

text \<open>The document of \<^verbatim>\<open>payrollData\<close> has no totals, so the \<^verbatim>\<open>required\<close> validators
  refuse it, whatever the employee.\<close>

lemma validate_payrollData: "validate (payrollData e m y user now) \<noteq> []"
  by (simp add: validate_def payrollData_def required_def)

lemma create_payrollData:
  "Payroll_create (payrollData e m y user now) store =
     Inl (ValidationError (validate (payrollData e m y user now)))"
  by (simp add: Payroll_create_def Let_def validate_doc_id validate_payrollData)

lemma for_each_employee_payrollData:
  "for_each_employee m y user now es (payrolls, errs, store) =
     (payrolls,
      errs @ map (\<lambda>e. (employeeId e, ValidationError (validate (payrollData e m y user now)))) es,
      store)"
  by (induction es arbitrary: errs) (simp_all add: create_payrollData)

lemma processPayroll_collection:
  "snd (processPayroll body_month body_year user now employees store) = store"
  by (auto simp: processPayroll_def for_each_employee_payrollData
      split: option.splits prod.splits)

subsection \<open>Queries\<close>

lemma findOne_existing:
  "\<exists>d\<in>set store. month d = Some m \<and> year d = Some y \<Longrightarrow>
   \<exists>x. Payroll_findOne store m y = Some x"
  by (induction store) (auto simp: Payroll_findOne_def)

lemma fold_accumulate:
  "fold accumulate ds acc =
     \<lparr>totalGross = totalGross acc + (\<Sum>d\<leftarrow>ds. numeric (grossSalary d)),
      sum_totalEarnings = sum_totalEarnings acc + (\<Sum>d\<leftarrow>ds. numeric (totalEarnings d)),
      sum_totalDeductions = sum_totalDeductions acc + (\<Sum>d\<leftarrow>ds. numeric (totalDeductions d)),
      totalNet = totalNet acc + (\<Sum>d\<leftarrow>ds. numeric (netSalary d)),
      count = count acc + length ds\<rparr>"
  by (induction ds arbitrary: acc) (simp_all add: accumulate_def)

lemma getTotalPayroll_sums:
  "getTotalPayroll store m y =
     \<lparr>totalGross = (\<Sum>d\<leftarrow>match_stage m y store. numeric (grossSalary d)),
      sum_totalEarnings = (\<Sum>d\<leftarrow>match_stage m y store. numeric (totalEarnings d)),
      sum_totalDeductions = (\<Sum>d\<leftarrow>match_stage m y store. numeric (totalDeductions d)),
      totalNet = (\<Sum>d\<leftarrow>match_stage m y store. numeric (netSalary d)),
      count = length (match_stage m y store)\<rparr>"
  by (simp add: getTotalPayroll_def group_stage_def fold_accumulate zero_totals_def)

subsection \<open>Validation and the hook\<close>

lemma validate_Nil_iff:
  "validate d = [] \<longleftrightarrow>
     (\<exists>m. month d = Some m \<and> 1 \<le> m \<and> m \<le> 12) \<and> year d \<noteq> None \<and>
     basicSalary (earnings d) \<noteq> None \<and> grossSalary d \<noteq> None \<and>
     totalEarnings d \<noteq> None \<and> totalDeductions d \<noteq> None \<and> netSalary d \<noteq> None"
  by (auto simp: validate_def required_def validate_month_def split: option.splits)

lemma validate_pre_save: "validate d = [] \<Longrightarrow> validate (pre_save d) = []"
  by (auto simp: validate_Nil_iff pre_save_def Let_def sum_earnings_def)

lemma totals_hold_pre_save:
  "basicSalary (earnings d) \<noteq> None \<Longrightarrow> totals_hold (pre_save d)"
  by (auto simp: totals_hold_def pre_save_def Let_def sum_earnings_def sum_deductions_def
      sum_reimbursements_def)

lemma pre_save_keeps:
  "doc_id (pre_save d) = doc_id d"
  "index_key (pre_save d) = index_key d"
  "grossSalary (pre_save d) = grossSalary d"
  "earnings (pre_save d) = earnings d"
  "paymentStatus (pre_save d) = paymentStatus d"
  "paymentDate (pre_save d) = paymentDate d"
  "transactionId (pre_save d) = transactionId d"
  "workingDays (pre_save d) = workingDays d"
  "daysPresent (pre_save d) = daysPresent d"
  by (simp_all add: pre_save_def Let_def index_key_def)

lemma gross_holds_pre_save: "gross_holds (pre_save d) = gross_holds d"
  by (simp add: gross_holds_def pre_save_keeps split: option.splits)

subsection \<open>Finding and replacing documents\<close>

lemma findById_Some:
  "Payroll_findById store i = Some d \<Longrightarrow> doc_id d = i \<and> d \<in> set store"
  by (auto simp: Payroll_findById_def find_Some_iff)

lemma findById_None:
  "Payroll_findById store i = None \<longleftrightarrow> i \<notin> set (map doc_id store)"
  by (auto simp: Payroll_findById_def find_None_iff)

lemma findById_replace:
  "Payroll_findById store i = Some d \<Longrightarrow> doc_id d' = i \<Longrightarrow>
   Payroll_findById (replace_doc d' store) i = Some d'"
  by (induction store) (auto simp: Payroll_findById_def replace_doc_def)

lemma doc_ids_replace: "map doc_id (replace_doc d' store) = map doc_id store"
  by (induction store) (simp_all add: replace_doc_def)

lemma replace_absent:
  "doc_id d' \<notin> set (map doc_id store) \<Longrightarrow> replace_doc d' store = store"
  by (induction store) (auto simp: replace_doc_def)

lemma keys_replace_subset:
  "set (map index_key (replace_doc d' store)) \<subseteq> insert (index_key d') (set (map index_key store))"
  by (induction store) (auto simp: replace_doc_def)

lemma filter_absent:
  "i \<notin> set (map doc_id xs) \<Longrightarrow> filter (\<lambda>x. doc_id x \<noteq> i) xs = xs"
  by (induction xs) auto

lemma distinct_keys_replace:
  "distinct (map doc_id store) \<Longrightarrow> distinct (map index_key store) \<Longrightarrow>
   index_key d' \<notin> set (map index_key (filter (\<lambda>x. doc_id x \<noteq> doc_id d') store)) \<Longrightarrow>
   distinct (map index_key (replace_doc d' store))"
proof (induction store)
  case Nil
  then show ?case by (simp add: replace_doc_def)
next
  case (Cons x xs)
  show ?case
  proof (cases "doc_id x = doc_id d'")
    case True
    then have absent: "doc_id d' \<notin> set (map doc_id xs)" using Cons.prems(1) by auto
    then have same: "replace_doc d' xs = xs" by (rule replace_absent)
    have all: "filter (\<lambda>x. doc_id x \<noteq> doc_id d') xs = xs"
      using absent by (rule filter_absent)
    have "replace_doc d' (x # xs) = d' # xs"
      using True same by (simp add: replace_doc_def)
    then show ?thesis using Cons.prems(2,3) True all by simp
  next
    case False
    have ih: "distinct (map index_key (replace_doc d' xs))"
      using Cons.IH Cons.prems False by simp
    have "index_key x \<noteq> index_key d'" using Cons.prems(3) False by auto
    moreover have "index_key x \<notin> set (map index_key xs)" using Cons.prems(2) by simp
    ultimately have "index_key x \<notin> set (map index_key (replace_doc d' xs))"
      using keys_replace_subset [of d' xs] by auto
    moreover have "replace_doc d' (x # xs) = x # replace_doc d' xs"
      using False by (simp add: replace_doc_def)
    ultimately show ?thesis using ih by simp
  qed
qed

lemma keys_replace_same:
  "distinct (map doc_id store) \<Longrightarrow> Payroll_findById store i = Some d \<Longrightarrow>
   doc_id d' = i \<Longrightarrow> index_key d' = index_key d \<Longrightarrow>
   map index_key (replace_doc d' store) = map index_key store"
proof -
  assume a: "distinct (map doc_id store)" "Payroll_findById store i = Some d"
    "doc_id d' = i" "index_key d' = index_key d"
  have d: "doc_id d = i" "d \<in> set store" using findById_Some [OF a(2)] by auto
  have "\<And>x. x \<in> set store \<Longrightarrow> doc_id x = i \<Longrightarrow> x = d"
    using a(1) d by (auto simp: distinct_map inj_on_def)
  then show ?thesis using a(3,4) by (auto simp: replace_doc_def)
qed

lemma set_replace_subset: "set (replace_doc d' store) \<subseteq> insert d' (set store)"
  by (auto simp: replace_doc_def)

subsection \<open>Fresh identifiers\<close>

lemma fold_max_start: "a \<le> fold max xs (a::nat)"
proof (induction xs arbitrary: a)
  case Nil
  show ?case by simp
next
  case (Cons x xs)
  have "a \<le> max x a" by simp
  also have "max x a \<le> fold max xs (max x a)" by (rule Cons.IH)
  finally show ?case by simp
qed

lemma fold_max_member: "i \<in> set xs \<Longrightarrow> i \<le> fold max xs (a::nat)"
proof (induction xs arbitrary: a)
  case Nil
  then show ?case by simp
next
  case (Cons x xs)
  show ?case
  proof (cases "i = x")
    case True
    have "x \<le> max x a" by simp
    also have "max x a \<le> fold max xs (max x a)" by (rule fold_max_start)
    finally show ?thesis using True by simp
  next
    case False
    then have "i \<in> set xs" using Cons.prems by simp
    then show ?thesis using Cons.IH by simp
  qed
qed

lemma fresh_id_new: "fresh_id store \<notin> set (map doc_id store)"
proof
  assume "fresh_id store \<in> set (map doc_id store)"
  then have "fresh_id store \<le> fold max (map doc_id store) 0" by (rule fold_max_member)
  then show False by (simp add: fresh_id_def)
qed

subsection \<open>Updates\<close>

lemma apply_set_doc_id: "doc_id (apply_set a d) = doc_id d"
  by (cases a) simp_all

lemma fold_apply_set_doc_id: "doc_id (fold apply_set body d) = doc_id d"
  by (induction body arbitrary: d) (simp_all add: apply_set_doc_id)

lemma set_earnings_basic:
  "basicSalary e \<noteq> None \<Longrightarrow> basicSalary (set_earnings p v e) \<noteq> None"
  by (cases p) simp_all

lemma apply_set_valid:
  "validate d = [] \<Longrightarrow> update_validators a = [] \<Longrightarrow> validate (apply_set a d) = []"
  by (cases a) (auto simp: validate_Nil_iff validate_month_def set_earnings_basic split: if_splits)

lemma fold_apply_set_valid:
  "validate d = [] \<Longrightarrow> concat (map update_validators body) = [] \<Longrightarrow>
   validate (fold apply_set body d) = []"
  by (induction body arbitrary: d) (simp_all add: apply_set_valid)

lemma updatePayroll_unknown:
  "Payroll_findById store i = None \<Longrightarrow> updatePayroll i body store = (Record_Not_Found, store)"
  by (simp add: updatePayroll_def)

lemma updatePayroll_cases:
  "snd (updatePayroll i body store) = store \<or>
   (\<exists>d. Payroll_findById store i = Some d \<and>
        index_key (fold apply_set body d) \<notin>
          set (map index_key (filter (\<lambda>x. doc_id x \<noteq> i) store)) \<and>
        concat (map update_validators body) = [] \<and>
        updatePayroll i body store =
          (Payroll_Updated (fold apply_set body d), replace_doc (fold apply_set body d) store))"
  by (auto simp: updatePayroll_def Payroll_findByIdAndUpdate_def Let_def split: option.splits)

lemma updatePayroll_single:
  "concat (map update_validators body) = [] \<Longrightarrow>
   updatePayroll (doc_id r) body [r] =
     (Payroll_Updated (fold apply_set body r), [fold apply_set body r])"
  by (simp add: updatePayroll_def Payroll_findByIdAndUpdate_def Payroll_findById_def Let_def
      replace_doc_def fold_apply_set_doc_id)

lemma updatePayroll_example:
  "concat (map update_validators body) = [] \<Longrightarrow>
   updatePayroll 1 body [example_record] =
     (Payroll_Updated (fold apply_set body example_record),
      [fold apply_set body example_record])"
  using updatePayroll_single [of body example_record] by (simp add: example_record_simps)

lemma totals_hold_example: "totals_hold example_record"
  unfolding example_record_def
  by (rule totals_hold_pre_save) (simp add: payrollData_def example_employee_def)

lemma gross_holds_example: "gross_holds example_record"
  by (simp add: gross_holds_def example_record_simps)

subsection \<open>Marking as paid\<close>

lemma markAsPaid_unknown:
  "Payroll_findById store i = None \<Longrightarrow> markAsPaid i t now store = (Record_Not_Found, store)"
  by (simp add: markAsPaid_def)

lemma markAsPaid_found:
  assumes "Payroll_findById store i = Some d" and "validate d = []"
  shows "markAsPaid i t now store =
           (Marked_As_Paid
              (pre_save (d\<lparr>paymentStatus := Paid, paymentDate := Some now, transactionId := t\<rparr>)),
            replace_doc
              (pre_save (d\<lparr>paymentStatus := Paid, paymentDate := Some now, transactionId := t\<rparr>))
              store)"
proof -
  have "validate (d\<lparr>paymentStatus := Paid, paymentDate := Some now, transactionId := t\<rparr>) = []"
    using assms(2) by (simp add: validate_def)
  then show ?thesis
    using assms(1) by (simp add: markAsPaid_def payroll_markAsPaid_def save_def)
qed

lemma markAsPaid_invalid:
  "Payroll_findById store i = Some d \<Longrightarrow> validate d \<noteq> [] \<Longrightarrow>
   markAsPaid i t now store = (Server_Error (ValidationError (validate d)), store)"
  by (simp add: markAsPaid_def payroll_markAsPaid_def save_def validate_def)

lemma paid_doc_fields:
  "paymentStatus
     (pre_save (d\<lparr>paymentStatus := Paid, paymentDate := Some now, transactionId := t\<rparr>)) = Paid"
  "paymentDate
     (pre_save (d\<lparr>paymentStatus := Paid, paymentDate := Some now, transactionId := t\<rparr>)) = Some now"
  "transactionId
     (pre_save (d\<lparr>paymentStatus := Paid, paymentDate := Some now, transactionId := t\<rparr>)) = t"
  "doc_id
     (pre_save (d\<lparr>paymentStatus := Paid, paymentDate := Some now, transactionId := t\<rparr>)) = doc_id d"
  "index_key
     (pre_save (d\<lparr>paymentStatus := Paid, paymentDate := Some now, transactionId := t\<rparr>)) =
   index_key d"
  by (simp_all add: pre_save_keeps) (simp add: index_key_def)

lemma paid_doc_valid:
  "validate d = [] \<Longrightarrow>
   validate (pre_save (d\<lparr>paymentStatus := Paid, paymentDate := Some now, transactionId := t\<rparr>))
     = []"
  by (rule validate_pre_save) (simp add: validate_def)

lemma paid_doc_totals:
  "validate d = [] \<Longrightarrow>
   totals_hold (pre_save (d\<lparr>paymentStatus := Paid, paymentDate := Some now, transactionId := t\<rparr>))"
  by (rule totals_hold_pre_save) (simp add: validate_Nil_iff)

subsection \<open>Creation and the unique index\<close>

lemma insertOne_duplicate:
  "index_key d \<in> set (map index_key store) \<Longrightarrow> insertOne d store = Inl DuplicateKey"
  by (simp add: insertOne_def)

lemma index_key_new_doc: "index_key (pre_save (d\<lparr>doc_id := i\<rparr>)) = index_key d"
  by (simp add: pre_save_def Let_def index_key_def)

lemma create_result:
  "Payroll_create d store = Inr (p, store') \<Longrightarrow>
   p = pre_save (d\<lparr>doc_id := fresh_id store\<rparr>) \<and> store' = store @ [p] \<and>
   validate d = [] \<and> index_key d \<notin> set (map index_key store)"
  by (auto simp: Payroll_create_def Let_def insertOne_def validate_doc_id index_key_new_doc
      split: if_splits)

lemma create_duplicate:
  "validate d = [] \<Longrightarrow> index_key d \<in> set (map index_key store) \<Longrightarrow>
   Payroll_create d store = Inl DuplicateKey"
  by (auto simp: Payroll_create_def Let_def insertOne_def validate_doc_id index_key_new_doc)

lemma create_unique:
  assumes "unique_ids store" and "unique_triples store"
    and "Payroll_create d store = Inr (p, store')"
  shows "unique_ids store' \<and> unique_triples store' \<and> index_key p = index_key d"
proof -
  have r: "p = pre_save (d\<lparr>doc_id := fresh_id store\<rparr>)" "store' = store @ [p]"
    "index_key d \<notin> set (map index_key store)"
    using create_result [OF assms(3)] by auto
  have k: "index_key p = index_key d" unfolding r(1) by (rule index_key_new_doc)
  have i: "doc_id p = fresh_id store" unfolding r(1) by (simp add: pre_save_keeps)
  show ?thesis
    using assms(1,2) r(2,3) k i fresh_id_new [of store]
    by (simp add: unique_ids_def unique_triples_def)
qed

lemma markAsPaid_unique:
  assumes "unique_ids store" and "unique_triples store"
  shows "unique_ids (snd (markAsPaid i t now store)) \<and>
         unique_triples (snd (markAsPaid i t now store))"
proof (cases "Payroll_findById store i")
  case None
  then show ?thesis using assms by (simp add: markAsPaid_unknown)
next
  case (Some d)
  show ?thesis
  proof (cases "validate d = []")
    case True
    have "map index_key
            (replace_doc
               (pre_save (d\<lparr>paymentStatus := Paid, paymentDate := Some now, transactionId := t\<rparr>))
               store) = map index_key store"
      using assms(1) Some findById_Some [OF Some]
      by (intro keys_replace_same [where i = i and d = d])
         (simp_all add: unique_ids_def paid_doc_fields)
    then show ?thesis
      using assms Some True
      by (simp add: markAsPaid_found unique_ids_def unique_triples_def doc_ids_replace)
  next
    case False
    then show ?thesis using assms Some by (simp add: markAsPaid_invalid)
  qed
qed

lemma updatePayroll_unique:
  assumes "unique_ids store" and "unique_triples store"
  shows "unique_ids (snd (updatePayroll i body store)) \<and>
         unique_triples (snd (updatePayroll i body store))"
  using updatePayroll_cases [of i body store]
proof
  assume "snd (updatePayroll i body store) = store"
  then show ?thesis using assms by simp
next
  assume "\<exists>d. Payroll_findById store i = Some d \<and>
        index_key (fold apply_set body d) \<notin>
          set (map index_key (filter (\<lambda>x. doc_id x \<noteq> i) store)) \<and>
        concat (map update_validators body) = [] \<and>
        updatePayroll i body store =
          (Payroll_Updated (fold apply_set body d), replace_doc (fold apply_set body d) store)"
  then obtain d where d: "Payroll_findById store i = Some d"
    "index_key (fold apply_set body d) \<notin>
          set (map index_key (filter (\<lambda>x. doc_id x \<noteq> i) store))"
    "updatePayroll i body store =
          (Payroll_Updated (fold apply_set body d), replace_doc (fold apply_set body d) store)"
    by blast
  have id: "doc_id (fold apply_set body d) = i"
    using findById_Some [OF d(1)] by (simp add: fold_apply_set_doc_id)
  have "distinct (map index_key (replace_doc (fold apply_set body d) store))"
    using assms d(2) id
    by (intro distinct_keys_replace) (simp_all add: unique_ids_def unique_triples_def)
  then show ?thesis
    using assms(1) d(3) by (simp add: unique_ids_def unique_triples_def doc_ids_replace)
qed

subsection \<open>Stored records stay valid\<close>

lemma stored_records_stay_valid:
  assumes "\<forall>x\<in>set store. validate x = []"
  shows "\<forall>x\<in>set (snd (processPayroll body_month body_year user now employees store)).
           validate x = []"
    and "\<forall>x\<in>set (snd (updatePayroll i body store)). validate x = []"
    and "\<forall>x\<in>set (snd (markAsPaid i t now store)). validate x = []"
    and "Payroll_create d store = Inr (p, store') \<Longrightarrow> \<forall>x\<in>set store'. validate x = []"
proof -
  show "\<forall>x\<in>set (snd (processPayroll body_month body_year user now employees store)).
           validate x = []"
    using assms by (simp add: processPayroll_collection)
  show "\<forall>x\<in>set (snd (updatePayroll i body store)). validate x = []"
    using updatePayroll_cases [of i body store]
  proof
    assume "snd (updatePayroll i body store) = store"
    then show ?thesis using assms by simp
  next
    assume "\<exists>d. Payroll_findById store i = Some d \<and>
        index_key (fold apply_set body d) \<notin>
          set (map index_key (filter (\<lambda>x. doc_id x \<noteq> i) store)) \<and>
        concat (map update_validators body) = [] \<and>
        updatePayroll i body store =
          (Payroll_Updated (fold apply_set body d), replace_doc (fold apply_set body d) store)"
    then obtain d where d: "Payroll_findById store i = Some d"
      "concat (map update_validators body) = []"
      "updatePayroll i body store =
          (Payroll_Updated (fold apply_set body d), replace_doc (fold apply_set body d) store)"
      by blast
    have "validate d = []" using assms findById_Some [OF d(1)] by blast
    then have "validate (fold apply_set body d) = []" using d(2) by (rule fold_apply_set_valid)
    then show ?thesis
      using assms d(3) set_replace_subset [of "fold apply_set body d" store] by auto
  qed
  show "\<forall>x\<in>set (snd (markAsPaid i t now store)). validate x = []"
  proof (cases "Payroll_findById store i")
    case None
    then show ?thesis using assms by (simp add: markAsPaid_unknown)
  next
    case (Some d)
    have v: "validate d = []" using assms findById_Some [OF Some] by blast
    show ?thesis
      using assms set_replace_subset
        [of "pre_save (d\<lparr>paymentStatus := Paid, paymentDate := Some now, transactionId := t\<rparr>)"
          store]
        paid_doc_valid [OF v, where now = now and t = t]
      by (auto simp: markAsPaid_found [OF Some v])
  qed
  show "\<forall>x\<in>set store'. validate x = []" if "Payroll_create d store = Inr (p, store')"
  proof -
    have r: "p = pre_save (d\<lparr>doc_id := fresh_id store\<rparr>)" "store' = store @ [p]" "validate d = []"
      using create_result [OF that] by auto
    have "validate p = []" unfolding r(1) using r(3)
      by (intro validate_pre_save) (simp add: validate_doc_id)
    then show ?thesis using assms r(2) by auto
  qed
qed

subsection \<open>The gross salary\<close>

lemma gross_holds_frame:
  "grossSalary d' = grossSalary d \<Longrightarrow> earnings d' = earnings d \<Longrightarrow>
   gross_holds d' = gross_holds d"
  by (simp add: gross_holds_def split: option.splits)

lemma second_simps:
  "validate second_data = []"
  "index_key second_data = (2, Some 3, Some 2024)"
  "index_key example_record = (1, Some 3, Some 2024)"
  "fresh_id [example_record] = 2"
  "index_key second_record = (2, Some 3, Some 2024)"
  "doc_id second_record = 2"
  "gross_holds second_data"
  "gross_holds second_record"
proof -
  show "validate second_data = []"
    by (simp add: second_data_def validate_Nil_iff example_record_simps)
  show "index_key second_data = (2, Some 3, Some 2024)"
    by (simp add: second_data_def index_key_def example_record_simps)
  show "index_key example_record = (1, Some 3, Some 2024)"
    by (simp add: index_key_def example_record_simps)
  show "fresh_id [example_record] = 2"
    by (simp add: fresh_id_def example_record_simps)
  show "index_key second_record = (2, Some 3, Some 2024)"
    unfolding second_record_def index_key_new_doc
    by (simp add: second_data_def index_key_def example_record_simps)
  show "doc_id second_record = 2"
    by (simp add: second_record_def pre_save_keeps)
  show g: "gross_holds second_data"
    by (simp add: second_data_def gross_holds_def example_record_simps)
  show "gross_holds second_record"
    unfolding second_record_def gross_holds_pre_save
    using g gross_holds_frame [of "second_data\<lparr>doc_id := 2\<rparr>" second_data] by simp
qed

lemma create_second:
  "Payroll_create second_data [example_record] =
     Inr (second_record, [example_record, second_record])"
  by (simp add: Payroll_create_def Let_def validate_doc_id second_simps insertOne_def
      index_key_new_doc second_record_def)

subsection \<open>The totals on the paths that save a document\<close>

text \<open>\<^verbatim>\<open>markAsPaid\<close> and \<^verbatim>\<open>Payroll.create\<close> write through \<^verbatim>\<open>save()\<close>, so the hook
  recomputes the totals of what they store.\<close>

lemma save_paths_keep_totals:
  assumes "list_all totals_hold store"
  shows "list_all totals_hold (snd (markAsPaid i t now store))"
    and "Payroll_create d store = Inr (p, store') \<Longrightarrow> list_all totals_hold store'"
    and "list_all totals_hold (snd (processPayroll body_month body_year user now employees store))"
proof -
  show "list_all totals_hold (snd (markAsPaid i t now store))"
  proof (cases "Payroll_findById store i")
    case None
    then show ?thesis using assms by (simp add: markAsPaid_unknown)
  next
    case (Some d)
    show ?thesis
    proof (cases "validate d = []")
      case True
      show ?thesis
        using assms set_replace_subset
          [of "pre_save (d\<lparr>paymentStatus := Paid, paymentDate := Some now, transactionId := t\<rparr>)"
            store]
          paid_doc_totals [OF True, where now = now and t = t]
        by (auto simp: markAsPaid_found [OF Some True] list_all_iff)
    next
      case False
      then show ?thesis using assms Some by (simp add: markAsPaid_invalid)
    qed
  qed
  show "list_all totals_hold store'" if "Payroll_create d store = Inr (p, store')"
  proof -
    have r: "p = pre_save (d\<lparr>doc_id := fresh_id store\<rparr>)" "store' = store @ [p]" "validate d = []"
      using create_result [OF that] by auto
    have "basicSalary (earnings (d\<lparr>doc_id := fresh_id store\<rparr>)) \<noteq> None"
      using r(3) by (simp add: validate_Nil_iff)
    then have "totals_hold p" unfolding r(1) by (rule totals_hold_pre_save)
    then show ?thesis using assms r(2) by simp
  qed
  show "list_all totals_hold (snd (processPayroll body_month body_year user now employees store))"
    using assms by (simp add: processPayroll_collection)
qed

subsection \<open>The loop and its summary\<close>

lemma for_each_employee_counts:
  "for_each_employee m y user now es (payrolls, errs, store) = (payrolls', errs', store') \<Longrightarrow>
   length payrolls' + length errs' = length payrolls + length errs + length es"
  by (auto simp: for_each_employee_payrollData)

lemma processPayroll_runs_loop:
  "m \<noteq> 0 \<Longrightarrow> y \<noteq> 0 \<Longrightarrow> Payroll_findOne store m y = None \<Longrightarrow>
   for_each_employee m y user now (filter (\<lambda>e. status e = Active) employees) ([], [], store) =
     (payrolls, errs, store') \<Longrightarrow>
   processPayroll (Some m) (Some y) user now employees store =
     (Payroll_Processed \<lparr>processed = length payrolls, failed = length errs, errors = errs\<rparr>,
      store')"
  by (simp add: processPayroll_def falsy_def)

lemma loop_month_13:
  "for_each_employee 13 2024 7 0 (filter (\<lambda>e. status e = Active) [example_employee])
     ([], [], [example_record]) =
   ([], [(''EMP00001'',
          ValidationError [''month'', ''totalEarnings'', ''totalDeductions'', ''netSalary''])],
    [example_record])"
  by (simp add: for_each_employee_payrollData example_employee_def validate_def
      validate_month_def required_def payrollData_def emp_grossSalary_def)

subsection \<open>The attendance and the period of the document built for an employee\<close>

lemma payrollData_attendance:
  "workingDays (payrollData e m y user now) = 30"
  "daysPresent (payrollData e m y user now) = 30"
  "1 \<le> m \<Longrightarrow> m \<le> 12 \<Longrightarrow> y < 0 \<or> 99 < y \<Longrightarrow>
   payPeriodEnd (payrollData e m y user now) =
     \<lparr>d_year = y, d_month = m, d_day = days_in_month y m\<rparr>"
  using new_Date_last_day [of m y] by (simp_all add: payrollData_def)

lemma create_keeps_attendance:
  "Payroll_create d store = Inr (p, store') \<Longrightarrow>
   workingDays p = workingDays d \<and> daysPresent p = daysPresent d \<and>
   payPeriodEnd p = payPeriodEnd d"
  using create_result [of d store p store'] by (simp add: pre_save_def Let_def)

section \<open>The claims\<close>

text \<open>
  C1. The claim holds on the paths that save a document and fails on \<^verbatim>\<open>updatePayroll\<close>.
  The collection holds the example record, whose totals agree with its components. An
  update whose body is \<^verbatim>\<open>{ "totalEarnings": 999999 }\<close> is stored as given: the record
  in the collection afterwards has totalEarnings 999999 over earnings that sum to 3700.
\<close>

theorem update_persists_caller_totals:
  "totals_hold example_record
   \<and> updatePayroll 1 [Set_totalEarnings 999999] [example_record] =
       (Payroll_Updated (example_record\<lparr>totalEarnings := Some 999999\<rparr>),
        [example_record\<lparr>totalEarnings := Some 999999\<rparr>])
   \<and> \<not> totals_hold (example_record\<lparr>totalEarnings := Some 999999\<rparr>)"
proof -
  have "updatePayroll 1 [Set_totalEarnings 999999] [example_record] =
       (Payroll_Updated (example_record\<lparr>totalEarnings := Some 999999\<rparr>),
        [example_record\<lparr>totalEarnings := Some 999999\<rparr>])"
    using updatePayroll_example [of "[Set_totalEarnings 999999]"] by simp
  moreover have "\<not> totals_hold (example_record\<lparr>totalEarnings := Some 999999\<rparr>)"
    using example_record_simps(15) [unfolded sum_earnings_def]
    by (simp add: totals_hold_def example_record_simps)
  ultimately show ?thesis using totals_hold_example by simp
qed

text \<open>
  C2. An update of an earnings component does not recompute the totals. After the body
  \<^verbatim>\<open>{ "earnings.bonuses": 500 }\<close> the stored record has earnings that sum to 4200,
  and totalEarnings 3700 and netSalary 3200 as before.
\<close>

theorem update_leaves_totals_stale:
  "updatePayroll 1 [Set_earnings E_bonuses 500] [example_record] =
       (Payroll_Updated (example_record\<lparr>earnings := (earnings example_record)\<lparr>bonuses := 500\<rparr>\<rparr>),
        [example_record\<lparr>earnings := (earnings example_record)\<lparr>bonuses := 500\<rparr>\<rparr>])
   \<and> sum_earnings ((earnings example_record)\<lparr>bonuses := 500\<rparr>) = Some 4200
   \<and> totalEarnings (example_record\<lparr>earnings := (earnings example_record)\<lparr>bonuses := 500\<rparr>\<rparr>)
       = Some 3700
   \<and> netSalary (example_record\<lparr>earnings := (earnings example_record)\<lparr>bonuses := 500\<rparr>\<rparr>)
       = Some 3200
   \<and> \<not> totals_hold (example_record\<lparr>earnings := (earnings example_record)\<lparr>bonuses := 500\<rparr>\<rparr>)"
proof -
  have "updatePayroll 1 [Set_earnings E_bonuses 500] [example_record] =
       (Payroll_Updated (example_record\<lparr>earnings := (earnings example_record)\<lparr>bonuses := 500\<rparr>\<rparr>),
        [example_record\<lparr>earnings := (earnings example_record)\<lparr>bonuses := 500\<rparr>\<rparr>])"
    using updatePayroll_example [of "[Set_earnings E_bonuses 500]"] by simp
  moreover have s: "sum_earnings ((earnings example_record)\<lparr>bonuses := 500\<rparr>) = Some 4200"
    using example_record_simps(15) by (auto simp: sum_earnings_def example_record_simps)
  moreover have
    "\<not> totals_hold (example_record\<lparr>earnings := (earnings example_record)\<lparr>bonuses := 500\<rparr>\<rparr>)"
    using s by (auto simp: totals_hold_def sum_earnings_def example_record_simps)
  ultimately show ?thesis by (simp add: example_record_simps)
qed

text \<open>
  C3. The unique index on (employee, month, year) is checked by the collection itself, on
  every insert and on every update. From a collection with no two documents of one
  \<^verbatim>\<open>_id\<close> and no two of one (employee, month, year), \<^verbatim>\<open>processPayroll\<close>,
  \<^verbatim>\<open>updatePayroll\<close>, \<^verbatim>\<open>markAsPaid\<close> and \<^verbatim>\<open>Payroll.create\<close> each lead to such a
  collection again; after a create has stored a document, a create of any valid document
  with the same three values fails with a duplicate-key error; and an insert of a document
  whose three values are in the collection fails so, with no check by the caller.
\<close>

theorem unique_employee_month_year:
  "unique_ids store \<and> unique_triples store \<longrightarrow>
     (unique_ids (snd (processPayroll body_month body_year user now employees store)) \<and>
      unique_triples (snd (processPayroll body_month body_year user now employees store)))
   \<and> (unique_ids (snd (updatePayroll i body store)) \<and>
      unique_triples (snd (updatePayroll i body store)))
   \<and> (unique_ids (snd (markAsPaid i t now store)) \<and>
      unique_triples (snd (markAsPaid i t now store)))
   \<and> (Payroll_create d store = Inr (p, store') \<longrightarrow>
        unique_ids store' \<and> unique_triples store' \<and>
        (index_key d2 = index_key d \<and> validate d2 = [] \<longrightarrow>
           Payroll_create d2 store' = Inl DuplicateKey))
   \<and> (index_key d2 \<in> set (map index_key store) \<longrightarrow> insertOne d2 store = Inl DuplicateKey)"
proof (intro impI)
  assume a: "unique_ids store \<and> unique_triples store"
  have c: "Payroll_create d2 store' = Inl DuplicateKey"
    if "Payroll_create d store = Inr (p, store')" "index_key d2 = index_key d" "validate d2 = []"
  proof -
    have "store' = store @ [p]" "index_key p = index_key d"
      using create_result [OF that(1)] create_unique [OF _ _ that(1)] a by auto
    then have "index_key d2 \<in> set (map index_key store')" using that(2) by simp
    then show ?thesis using that(3) by (simp add: create_duplicate)
  qed
  show "(unique_ids (snd (processPayroll body_month body_year user now employees store)) \<and>
      unique_triples (snd (processPayroll body_month body_year user now employees store)))
   \<and> (unique_ids (snd (updatePayroll i body store)) \<and>
      unique_triples (snd (updatePayroll i body store)))
   \<and> (unique_ids (snd (markAsPaid i t now store)) \<and>
      unique_triples (snd (markAsPaid i t now store)))
   \<and> (Payroll_create d store = Inr (p, store') \<longrightarrow>
        unique_ids store' \<and> unique_triples store' \<and>
        (index_key d2 = index_key d \<and> validate d2 = [] \<longrightarrow>
           Payroll_create d2 store' = Inl DuplicateKey))
   \<and> (index_key d2 \<in> set (map index_key store) \<longrightarrow> insertOne d2 store = Inl DuplicateKey)"
    using a c updatePayroll_unique [of store i body] markAsPaid_unique [of store i t now]
      create_unique [of store d p store']
    by (auto simp: processPayroll_collection insertOne_duplicate)
qed

theorem unique_employee_month_year_witness:
  "(unique_ids [example_record] \<and> unique_triples [example_record])
   \<and> unique_triples (snd (processPayroll (Some 4) (Some 2024) 7 0 [example_employee] [example_record]))
   \<and> unique_triples (snd (updatePayroll 1 [Set_month 4] [example_record]))
   \<and> unique_triples (snd (markAsPaid 1 (Some ''TXN123'') 0 [example_record]))
   \<and> Payroll_create second_data [example_record] =
       Inr (second_record, [example_record, second_record])
   \<and> unique_triples [example_record, second_record]
   \<and> (index_key second_data = index_key second_data \<and> validate second_data = [])
   \<and> Payroll_create second_data [example_record, second_record] = Inl DuplicateKey
   \<and> index_key example_record \<in> set (map index_key [example_record])
   \<and> insertOne example_record [example_record] = Inl DuplicateKey"
proof -
  have u: "unique_ids [example_record] \<and> unique_triples [example_record]"
    by (simp add: unique_ids_def unique_triples_def)
  have k: "index_key second_data = index_key second_data \<and> validate second_data = []"
    by (simp add: second_simps)
  have e: "index_key example_record \<in> set (map index_key [example_record])" by simp
  note c = unique_employee_month_year [where store = "[example_record]" and body_month = "Some 4"
            and body_year = "Some 2024"
            and user = 7 and now = 0 and employees = "[example_employee]" and i = 1
            and body = "[Set_month 4]" and t = "Some ''TXN123''" and d = second_data
            and p = second_record and store' = "[example_record, second_record]"
            and ?d2.0 = second_data, THEN mp, OF u]
  note c' = unique_employee_month_year [where store = "[example_record]" and ?d2.0 = example_record, THEN mp, OF u]
  have c1: "unique_triples
      (snd (processPayroll (Some 4) (Some 2024) 7 0 [example_employee] [example_record]))"
    using c by blast
  have c2: "unique_triples (snd (updatePayroll 1 [Set_month 4] [example_record]))"
    using c by blast
  have c3: "unique_triples (snd (markAsPaid 1 (Some ''TXN123'') 0 [example_record]))"
    using c by blast
  have c4: "unique_triples [example_record, second_record]"
    using c create_second by blast
  have c5: "Payroll_create second_data [example_record, second_record] = Inl DuplicateKey"
    using c create_second k by blast
  have c6: "insertOne example_record [example_record] = Inl DuplicateKey"
    using c' e by blast
  show ?thesis using u c1 c2 c3 create_second c4 k c5 e c6 by blast
qed

text \<open>
  C4. When a record of the period (month, year) is in the collection, for whichever
  employee, and month and year pass the first check of the handler (both are given and not
  zero), \<^verbatim>\<open>processPayroll\<close> answers that the period is already processed and leaves the
  collection as it was: no employee is read and nothing is created or changed. A second
  call for a period for which a record exists is an instance.
\<close>

theorem period_conflict_rejected:
  "m \<noteq> 0 \<Longrightarrow> y \<noteq> 0 \<Longrightarrow> \<exists>d\<in>set store. month d = Some m \<and> year d = Some y \<Longrightarrow>
   processPayroll (Some m) (Some y) user now employees store = (Already_Processed m y, store)"
  using findOne_existing [of store m y]
  by (auto simp: processPayroll_def falsy_def)

theorem period_conflict_rejected_witness:
  "(3::int) \<noteq> 0 \<and> (2024::int) \<noteq> 0 \<and>
   (\<exists>d\<in>set [example_record]. month d = Some 3 \<and> year d = Some 2024) \<and>
   processPayroll (Some 3) (Some 2024) 7 100 [example_employee] [example_record] =
     (Already_Processed 3 2024, [example_record])"
proof -
  have h: "\<exists>d\<in>set [example_record]. month d = Some 3 \<and> year d = Some 2024"
    by (simp add: example_record_simps)
  show ?thesis
    using h period_conflict_rejected [of 3 2024 "[example_record]" 7 100 "[example_employee]"]
    by simp
qed

text \<open>
  C5, as the claim states it, fails: month 13 and year -5 are not refused. The handler
  goes on to the employees and answers with a summary.
\<close>

theorem out_of_range_period_not_rejected:
  "processPayroll (Some 13) (Some 2024) 7 0 [] [] =
     (Payroll_Processed \<lparr>processed = 0, failed = 0, errors = []\<rparr>, [])
   \<and> processPayroll (Some 3) (Some (- 5)) 7 0 [] [] =
     (Payroll_Processed \<lparr>processed = 0, failed = 0, errors = []\<rparr>, [])"
  by (simp add: processPayroll_def falsy_def Payroll_findOne_def)

text \<open>
  C5, amended. \<^verbatim>\<open>processPayroll\<close> answers "Please provide month and year", with the
  collection untouched, exactly when month or year is missing or zero. Any other month and
  year, in range or not, pass this check: the handler answers "already processed", with the
  collection untouched, when a record of the period is found, and otherwise runs the loop
  over the active employees and answers with the summary of the loop, whose processed and
  failed counts add up to the number of active employees.
\<close>

theorem period_check_is_falsy_check:
  "(falsy body_month \<or> falsy body_year \<longrightarrow>
      processPayroll body_month body_year user now employees store =
        (Provide_Month_And_Year, store))
   \<and> (\<not> falsy body_month \<and> \<not> falsy body_year \<longrightarrow>
      fst (processPayroll body_month body_year user now employees store) \<noteq>
        Provide_Month_And_Year)
   \<and> (m \<noteq> 0 \<and> y \<noteq> 0 \<and> Payroll_findOne store m y \<noteq> None \<longrightarrow>
      processPayroll (Some m) (Some y) user now employees store =
        (Already_Processed m y, store))
   \<and> (m \<noteq> 0 \<and> y \<noteq> 0 \<and> Payroll_findOne store m y = None \<and>
      for_each_employee m y user now (filter (\<lambda>e. status e = Active) employees)
        ([], [], store) = (payrolls, errs, store') \<longrightarrow>
      processPayroll (Some m) (Some y) user now employees store =
        (Payroll_Processed
           \<lparr>processed = length payrolls, failed = length errs, errors = errs\<rparr>,
         store')
      \<and> length payrolls + length errs =
          length (filter (\<lambda>e. status e = Active) employees))"
proof (intro conjI impI)
  assume "falsy body_month \<or> falsy body_year"
  then show "processPayroll body_month body_year user now employees store =
        (Provide_Month_And_Year, store)"
    by (auto simp: processPayroll_def falsy_def split: option.splits)
next
  assume "\<not> falsy body_month \<and> \<not> falsy body_year"
  then show "fst (processPayroll body_month body_year user now employees store) \<noteq>
        Provide_Month_And_Year"
    by (auto simp: processPayroll_def falsy_def split: option.splits prod.splits)
next
  assume "m \<noteq> 0 \<and> y \<noteq> 0 \<and> Payroll_findOne store m y \<noteq> None"
  then show "processPayroll (Some m) (Some y) user now employees store =
        (Already_Processed m y, store)"
    by (auto simp: processPayroll_def falsy_def)
next
  assume a: "m \<noteq> 0 \<and> y \<noteq> 0 \<and> Payroll_findOne store m y = None \<and>
      for_each_employee m y user now (filter (\<lambda>e. status e = Active) employees)
        ([], [], store) = (payrolls, errs, store')"
  then show "processPayroll (Some m) (Some y) user now employees store =
        (Payroll_Processed
           \<lparr>processed = length payrolls, failed = length errs, errors = errs\<rparr>,
         store')"
    by (simp add: processPayroll_runs_loop)
  show "length payrolls + length errs =
          length (filter (\<lambda>e. status e = Active) employees)"
    using a for_each_employee_counts
      [of m y user now "filter (\<lambda>e. status e = Active) employees" "[]" "[]" store
        payrolls errs store']
    by simp
qed

theorem period_check_is_falsy_check_witness:
  "(falsy None \<or> falsy (Some 2024)) \<and>
   processPayroll None (Some 2024) 7 0 [example_employee] [example_record] =
     (Provide_Month_And_Year, [example_record]) \<and>
   (\<not> falsy (Some 13) \<and> \<not> falsy (Some 2024)) \<and>
   fst (processPayroll (Some 13) (Some 2024) 7 0 [example_employee] [example_record]) \<noteq>
     Provide_Month_And_Year \<and>
   ((3::int) \<noteq> 0 \<and> (2024::int) \<noteq> 0 \<and> Payroll_findOne [example_record] 3 2024 \<noteq> None) \<and>
   processPayroll (Some 3) (Some 2024) 7 0 [example_employee] [example_record] =
     (Already_Processed 3 2024, [example_record]) \<and>
   ((13::int) \<noteq> 0 \<and> (2024::int) \<noteq> 0 \<and> Payroll_findOne [example_record] 13 2024 = None) \<and>
   processPayroll (Some 13) (Some 2024) 7 0 [example_employee] [example_record] =
     (Payroll_Processed
        \<lparr>processed = 0, failed = 1,
         errors = [(''EMP00001'',
           ValidationError [''month'', ''totalEarnings'', ''totalDeductions'', ''netSalary''])]\<rparr>,
      [example_record])"
proof -
  have f: "falsy None \<or> falsy (Some 2024)" "\<not> falsy (Some 13) \<and> \<not> falsy (Some 2024)"
    by (simp_all add: falsy_def)
  have q3: "(3::int) \<noteq> 0 \<and> (2024::int) \<noteq> 0 \<and> Payroll_findOne [example_record] 3 2024 \<noteq> None"
    by (simp add: Payroll_findOne_def example_record_simps)
  have q13: "(13::int) \<noteq> 0 \<and> (2024::int) \<noteq> 0 \<and> Payroll_findOne [example_record] 13 2024 = None"
    by (simp add: Payroll_findOne_def example_record_simps)
  note a = period_check_is_falsy_check [where body_month = None and body_year = "Some 2024" and user = 7 and now = 0
      and employees = "[example_employee]" and store = "[example_record]"]
  note b = period_check_is_falsy_check [where body_month = "Some 13" and body_year = "Some 2024" and user = 7 and now = 0
      and employees = "[example_employee]" and store = "[example_record]" and m = 3
      and y = 2024]
  note c = period_check_is_falsy_check [where user = 7 and now = 0
      and employees = "[example_employee]" and store = "[example_record]" and m = 13
      and y = 2024 and payrolls = "[]"
      and errs = "[(''EMP00001'',
          ValidationError [''month'', ''totalEarnings'', ''totalDeductions'', ''netSalary''])]"
      and store' = "[example_record]"]
  have r1: "processPayroll None (Some 2024) 7 0 [example_employee] [example_record] =
     (Provide_Month_And_Year, [example_record])"
    using a f(1) by blast
  have r2: "fst (processPayroll (Some 13) (Some 2024) 7 0 [example_employee] [example_record]) \<noteq>
     Provide_Month_And_Year"
    using b f(2) by blast
  have r3: "processPayroll (Some 3) (Some 2024) 7 0 [example_employee] [example_record] =
     (Already_Processed 3 2024, [example_record])"
    using b q3 by blast
  have r4: "processPayroll (Some 13) (Some 2024) 7 0 [example_employee] [example_record] =
     (Payroll_Processed
        \<lparr>processed = length ([]::payroll list),
         failed = length [(''EMP00001'',
           ValidationError [''month'', ''totalEarnings'', ''totalDeductions'', ''netSalary''])],
         errors = [(''EMP00001'',
           ValidationError [''month'', ''totalEarnings'', ''totalDeductions'', ''netSalary''])]\<rparr>,
      [example_record])"
    using c q13 loop_month_13 by blast
  show ?thesis using f q3 q13 r1 r2 r3 r4 by simp
qed

text \<open>
  C6, as the claim states it, fails after a mutation: an update of earnings.basicSalary to
  5000 leaves grossSalary at 3700, while basicSalary + hra + allowances is 5700.
\<close>

theorem update_breaks_grossSalary:
  "gross_holds example_record
   \<and> updatePayroll 1 [Set_earnings E_basicSalary 5000] [example_record] =
       (Payroll_Updated
          (example_record\<lparr>earnings := (earnings example_record)\<lparr>basicSalary := Some 5000\<rparr>\<rparr>),
        [example_record\<lparr>earnings := (earnings example_record)\<lparr>basicSalary := Some 5000\<rparr>\<rparr>])
   \<and> \<not> gross_holds
         (example_record\<lparr>earnings := (earnings example_record)\<lparr>basicSalary := Some 5000\<rparr>\<rparr>)"
proof -
  have "updatePayroll 1 [Set_earnings E_basicSalary 5000] [example_record] =
       (Payroll_Updated
          (example_record\<lparr>earnings := (earnings example_record)\<lparr>basicSalary := Some 5000\<rparr>\<rparr>),
        [example_record\<lparr>earnings := (earnings example_record)\<lparr>basicSalary := Some 5000\<rparr>\<rparr>])"
    using updatePayroll_example [of "[Set_earnings E_basicSalary 5000]"] by simp
  moreover have "\<not> gross_holds
         (example_record\<lparr>earnings := (earnings example_record)\<lparr>basicSalary := Some 5000\<rparr>\<rparr>)"
    by (simp add: gross_holds_def example_record_simps)
  ultimately show ?thesis using gross_holds_example by simp
qed

text \<open>
  C6, amended. The document that \<^verbatim>\<open>processPayroll\<close> builds for an employee with a basic
  salary has grossSalary = earnings.basicSalary + earnings.hra + earnings.allowances.
  \<^verbatim>\<open>Payroll.create\<close>, \<^verbatim>\<open>markAsPaid\<close> and \<^verbatim>\<open>processPayroll\<close> store grossSalary and
  the earnings as they are given, so a collection in which every record has the equation
  keeps it under them. Nothing recomputes grossSalary; what an update does to it is left
  open.
\<close>

theorem grossSalary_kept_as_created:
  "(basic (emp_salary e) \<noteq> None \<longrightarrow> gross_holds (payrollData e m y user now))
   \<and> (list_all gross_holds store \<and> gross_holds d \<and>
        Payroll_create d store = Inr (p, store') \<longrightarrow> list_all gross_holds store')
   \<and> (list_all gross_holds store \<longrightarrow>
        list_all gross_holds (snd (markAsPaid i t now store)))
   \<and> (list_all gross_holds store \<longrightarrow>
        list_all gross_holds
          (snd (processPayroll body_month body_year user now employees store)))"
  unfolding list_all_iff
proof (intro conjI impI)
  assume "basic (emp_salary e) \<noteq> None"
  then show "gross_holds (payrollData e m y user now)"
    by (auto simp: gross_holds_def payrollData_def emp_grossSalary_def)
next
  assume a: "(\<forall>x\<in>set store. gross_holds x) \<and> gross_holds d \<and>
    Payroll_create d store = Inr (p, store')"
  then have r: "p = pre_save (d\<lparr>doc_id := fresh_id store\<rparr>)" "store' = store @ [p]"
    using create_result [of d store p store'] by auto
  have "gross_holds (d\<lparr>doc_id := fresh_id store\<rparr>)"
    using a gross_holds_frame [of "d\<lparr>doc_id := fresh_id store\<rparr>" d] by simp
  then have "gross_holds p" unfolding r(1) by (simp add: gross_holds_pre_save)
  then show "\<forall>x\<in>set store'. gross_holds x" using a r(2) by auto
next
  assume a: "\<forall>x\<in>set store. gross_holds x"
  show "\<forall>x\<in>set (snd (markAsPaid i t now store)). gross_holds x"
  proof (cases "Payroll_findById store i")
    case None
    then show ?thesis using a by (simp add: markAsPaid_unknown)
  next
    case (Some d)
    show ?thesis
    proof (cases "validate d = []")
      case True
      have "gross_holds d" using a findById_Some [OF Some] by blast
      then have "gross_holds (d\<lparr>paymentStatus := Paid, paymentDate := Some now, transactionId := t\<rparr>)"
        using gross_holds_frame
          [of "d\<lparr>paymentStatus := Paid, paymentDate := Some now, transactionId := t\<rparr>" d]
        by simp
      then have "gross_holds
        (pre_save (d\<lparr>paymentStatus := Paid, paymentDate := Some now, transactionId := t\<rparr>))"
        by (simp add: gross_holds_pre_save)
      then show ?thesis
        using a set_replace_subset
          [of "pre_save (d\<lparr>paymentStatus := Paid, paymentDate := Some now, transactionId := t\<rparr>)"
            store]
        by (auto simp: markAsPaid_found [OF Some True])
    next
      case False
      then show ?thesis using a Some by (simp add: markAsPaid_invalid)
    qed
  qed
next
  assume "\<forall>x\<in>set store. gross_holds x"
  then show "\<forall>x\<in>set (snd (processPayroll body_month body_year user now employees store)).
           gross_holds x"
    by (simp add: processPayroll_collection)
qed

theorem grossSalary_kept_as_created_witness:
  "basic (emp_salary example_employee) \<noteq> None
   \<and> gross_holds (payrollData example_employee 3 2024 7 0)
   \<and> list_all gross_holds [example_record]
   \<and> gross_holds second_data
   \<and> Payroll_create second_data [example_record] =
       Inr (second_record, [example_record, second_record])
   \<and> list_all gross_holds [example_record, second_record]
   \<and> list_all gross_holds (snd (markAsPaid 1 (Some ''TXN123'') 0 [example_record]))
   \<and> list_all gross_holds
       (snd (processPayroll (Some 4) (Some 2024) 7 0 [example_employee] [example_record]))"
proof -
  have g: "list_all gross_holds [example_record]"
    by (simp add: gross_holds_def example_record_simps)
  have b: "basic (emp_salary example_employee) \<noteq> None" by (simp add: example_employee_def)
  have h: "list_all gross_holds [example_record] \<and> gross_holds second_data \<and>
        Payroll_create second_data [example_record] =
          Inr (second_record, [example_record, second_record])"
    using g create_second by (simp add: second_simps)
  note c = grossSalary_kept_as_created
           [where e = example_employee and m = 3 and y = 2024 and user = 7 and now = 0
            and store = "[example_record]" and d = second_data and p = second_record
            and store' = "[example_record, second_record]" and i = 1
            and t = "Some ''TXN123''" and body_month = "Some 4" and body_year = "Some 2024"
            and employees = "[example_employee]"]
  have c1: "gross_holds (payrollData example_employee 3 2024 7 0)"
    using c b by blast
  have c2: "list_all gross_holds [example_record, second_record]"
    using c h by blast
  have c3: "list_all gross_holds (snd (markAsPaid 1 (Some ''TXN123'') 0 [example_record]))"
    using c g by blast
  have c4: "list_all gross_holds
       (snd (processPayroll (Some 4) (Some 2024) 7 0 [example_employee] [example_record]))"
    using c g by blast
  show ?thesis using b c1 h c2 c3 c4 by blast
qed

text \<open>
  C7. Ten active employees, nine with a basic salary and one without, an empty collection,
  March 2024. Every \<^verbatim>\<open>Payroll.create\<close> of the loop fails in validation, also for the
  nine: the document has no totalEarnings, totalDeductions and netSalary, which the schema
  requires, and the hook that would compute them runs after validation. The answer is
  processed 0, failed 10, with all ten employees in errors, and nothing is stored.
\<close>

theorem process_ten_employees_creates_none:
  "filter (\<lambda>e. status e = Active) ten_employees = ten_employees
   \<and> length ten_employees = 10
   \<and> length (filter (\<lambda>e. basic (emp_salary e) = None) ten_employees) = 1
   \<and> processPayroll (Some 3) (Some 2024) 7 0 ten_employees [] =
       (Payroll_Processed
          \<lparr>processed = 0, failed = 10,
           errors =
             map (\<lambda>e. (employeeId e, ValidationError (validate (payrollData e 3 2024 7 0))))
               ten_employees\<rparr>,
        [])
   \<and> validate (payrollData (numbered_employee 1 ''EMP00001'' (Some 3000)) 3 2024 7 0) =
       [''totalEarnings'', ''totalDeductions'', ''netSalary'']"
proof -
  have act: "filter (\<lambda>e. status e = Active) ten_employees = ten_employees"
    by (simp add: ten_employees_def numbered_employee_def example_employee_def)
  have len: "length ten_employees = 10" by (simp add: ten_employees_def)
  have one: "length (filter (\<lambda>e. basic (emp_salary e) = None) ten_employees) = 1"
    by (simp add: ten_employees_def numbered_employee_def)
  have run: "processPayroll (Some 3) (Some 2024) 7 0 ten_employees [] =
       (Payroll_Processed
          \<lparr>processed = 0, failed = 10,
           errors =
             map (\<lambda>e. (employeeId e, ValidationError (validate (payrollData e 3 2024 7 0))))
               ten_employees\<rparr>,
        [])"
    by (simp add: processPayroll_def falsy_def Payroll_findOne_def act
        for_each_employee_payrollData len)
  have v: "validate (payrollData (numbered_employee 1 ''EMP00001'' (Some 3000)) 3 2024 7 0) =
       [''totalEarnings'', ''totalDeductions'', ''netSalary'']"
    by (simp add: validate_def validate_month_def required_def payrollData_def
        numbered_employee_def example_employee_def emp_grossSalary_def)
  show ?thesis using act len one run v by simp
qed

text \<open>
  C8. \<^verbatim>\<open>getTotalPayroll\<close> returns the sums of grossSalary, totalEarnings, totalDeductions
  and netSalary and the number of records, over the records of the month and year whose
  payment status is not Failed, and no others; with no such record all five are zero; with
  one Failed and one Paid record of net salary 1000 each, the net total is 1000 and the
  count is 1.
\<close>

theorem getTotalPayroll_sums_non_failed:
  "getTotalPayroll store m y =
     \<lparr>totalGross =
        (\<Sum>d\<leftarrow>[d\<leftarrow>store. month d = Some m \<and> year d = Some y \<and> paymentStatus d \<noteq> Failed].
           numeric (grossSalary d)),
      sum_totalEarnings =
        (\<Sum>d\<leftarrow>[d\<leftarrow>store. month d = Some m \<and> year d = Some y \<and> paymentStatus d \<noteq> Failed].
           numeric (totalEarnings d)),
      sum_totalDeductions =
        (\<Sum>d\<leftarrow>[d\<leftarrow>store. month d = Some m \<and> year d = Some y \<and> paymentStatus d \<noteq> Failed].
           numeric (totalDeductions d)),
      totalNet =
        (\<Sum>d\<leftarrow>[d\<leftarrow>store. month d = Some m \<and> year d = Some y \<and> paymentStatus d \<noteq> Failed].
           numeric (netSalary d)),
      count =
        length [d\<leftarrow>store. month d = Some m \<and> year d = Some y \<and> paymentStatus d \<noteq> Failed]\<rparr>
   \<and> getTotalPayroll [] m y = zero_totals
   \<and> getTotalPayroll [example_record\<lparr>paymentStatus := Paid\<rparr>] 4 2024 = zero_totals
   \<and> totalNet (getTotalPayroll
        [example_record\<lparr>doc_id := 1, netSalary := Some 1000, paymentStatus := Failed\<rparr>,
         example_record\<lparr>doc_id := 2, employee_ref := 2, netSalary := Some 1000,
                         paymentStatus := Paid\<rparr>] 3 2024) = 1000
   \<and> count (getTotalPayroll
        [example_record\<lparr>doc_id := 1, netSalary := Some 1000, paymentStatus := Failed\<rparr>,
         example_record\<lparr>doc_id := 2, employee_ref := 2, netSalary := Some 1000,
                         paymentStatus := Paid\<rparr>] 3 2024) = 1"
  unfolding getTotalPayroll_sums
  by (simp add: match_stage_def zero_totals_def example_record_simps numeric_def)

text \<open>
  C9. For an unknown id \<^verbatim>\<open>markAsPaid\<close> answers not found and changes nothing. For the
  id of a stored record that passes the validators of the schema, whatever its payment
  and approval status, it answers with the record and stores it with paymentStatus Paid,
  paymentDate the current time and transactionId the one given; the record stays valid,
  and a second call with another transaction id at another time stores that id and that
  time.
\<close>

theorem markAsPaid_sets_paid:
  "(Payroll_findById store i = None \<longrightarrow>
      markAsPaid i t now store = (Record_Not_Found, store))
   \<and> (Payroll_findById store i = Some d \<and> validate d = [] \<longrightarrow>
        (\<exists>d'. markAsPaid i t now store = (Marked_As_Paid d', replace_doc d' store)
           \<and> Payroll_findById (replace_doc d' store) i = Some d'
           \<and> paymentStatus d' = Paid \<and> paymentDate d' = Some now \<and> transactionId d' = t
           \<and> validate d' = []
           \<and> (\<exists>d''. markAsPaid i t2 now2 (replace_doc d' store) =
                       (Marked_As_Paid d'', replace_doc d'' (replace_doc d' store))
                 \<and> Payroll_findById (replace_doc d'' (replace_doc d' store)) i = Some d''
                 \<and> paymentStatus d'' = Paid \<and> paymentDate d'' = Some now2
                 \<and> transactionId d'' = t2)))"
proof (intro conjI impI)
  assume "Payroll_findById store i = None"
  then show "markAsPaid i t now store = (Record_Not_Found, store)" by (rule markAsPaid_unknown)
next
  assume a: "Payroll_findById store i = Some d \<and> validate d = []"
  define d' where
    "d' = pre_save (d\<lparr>paymentStatus := Paid, paymentDate := Some now, transactionId := t\<rparr>)"
  define d'' where
    "d'' = pre_save (d'\<lparr>paymentStatus := Paid, paymentDate := Some now2, transactionId := t2\<rparr>)"
  have id: "doc_id d = i" using a findById_Some by blast
  have run1: "markAsPaid i t now store = (Marked_As_Paid d', replace_doc d' store)"
    unfolding d'_def using a by (simp add: markAsPaid_found)
  have id1: "doc_id d' = i" unfolding d'_def using id by (simp add: paid_doc_fields)
  have found1: "Payroll_findById (replace_doc d' store) i = Some d'"
    using a id1 by (simp add: findById_replace)
  have valid1: "validate d' = []" unfolding d'_def using a by (simp add: paid_doc_valid)
  have run2: "markAsPaid i t2 now2 (replace_doc d' store) =
                (Marked_As_Paid d'', replace_doc d'' (replace_doc d' store))"
    unfolding d''_def using found1 valid1 by (simp add: markAsPaid_found)
  have id2: "doc_id d'' = i" unfolding d''_def using id1 by (simp add: paid_doc_fields)
  have found2: "Payroll_findById (replace_doc d'' (replace_doc d' store)) i = Some d''"
    using found1 id2 by (simp add: findById_replace)
  have f1: "paymentStatus d' = Paid \<and> paymentDate d' = Some now \<and> transactionId d' = t"
    unfolding d'_def by (simp add: paid_doc_fields)
  have f2: "paymentStatus d'' = Paid \<and> paymentDate d'' = Some now2 \<and> transactionId d'' = t2"
    unfolding d''_def by (simp add: paid_doc_fields)
  show "\<exists>d'. markAsPaid i t now store = (Marked_As_Paid d', replace_doc d' store)
           \<and> Payroll_findById (replace_doc d' store) i = Some d'
           \<and> paymentStatus d' = Paid \<and> paymentDate d' = Some now \<and> transactionId d' = t
           \<and> validate d' = []
           \<and> (\<exists>d''. markAsPaid i t2 now2 (replace_doc d' store) =
                       (Marked_As_Paid d'', replace_doc d'' (replace_doc d' store))
                 \<and> Payroll_findById (replace_doc d'' (replace_doc d' store)) i = Some d''
                 \<and> paymentStatus d'' = Paid \<and> paymentDate d'' = Some now2
                 \<and> transactionId d'' = t2)"
    using run1 found1 valid1 run2 found2 f1 f2 by blast
qed

theorem markAsPaid_sets_paid_witness:
  "Payroll_findById [example_record] 2 = None
   \<and> markAsPaid 2 (Some ''TXN123'') 55 [example_record] = (Record_Not_Found, [example_record])
   \<and> Payroll_findById [example_record] 1 = Some example_record
   \<and> validate example_record = []
   \<and> paymentStatus example_record = Pending
   \<and> (\<exists>d'. markAsPaid 1 (Some ''TXN123'') 55 [example_record] = (Marked_As_Paid d', [d'])
         \<and> paymentStatus d' = Paid \<and> paymentDate d' = Some 55
         \<and> transactionId d' = Some ''TXN123''
         \<and> (\<exists>d''. markAsPaid 1 (Some ''TXN456'') 77 [d'] = (Marked_As_Paid d'', [d''])
               \<and> paymentStatus d'' = Paid \<and> paymentDate d'' = Some 77
               \<and> transactionId d'' = Some ''TXN456''))"
proof -
  have n: "Payroll_findById [example_record] 2 = None"
    by (simp add: Payroll_findById_def example_record_simps)
  have s: "Payroll_findById [example_record] 1 = Some example_record"
    by (simp add: Payroll_findById_def example_record_simps)
  have v: "validate example_record = []" by (simp add: example_record_simps)
  have r: "\<And>x. doc_id x = 1 \<Longrightarrow> replace_doc x [example_record] = [x]"
    by (simp add: replace_doc_def example_record_simps)
  have r2: "\<And>x z. doc_id x = 1 \<Longrightarrow> doc_id z = 1 \<Longrightarrow> replace_doc x [z] = [x]"
    by (simp add: replace_doc_def)
  from markAsPaid_sets_paid [of "[example_record]" 2 "Some ''TXN123''" 55 example_record "Some ''TXN456''" 77] n
  have a: "markAsPaid 2 (Some ''TXN123'') 55 [example_record] = (Record_Not_Found, [example_record])"
    by simp
  from markAsPaid_sets_paid [of "[example_record]" 1 "Some ''TXN123''" 55 example_record "Some ''TXN456''" 77] s v
  obtain d' d'' where
    b: "markAsPaid 1 (Some ''TXN123'') 55 [example_record] =
          (Marked_As_Paid d', replace_doc d' [example_record])"
       "Payroll_findById (replace_doc d' [example_record]) 1 = Some d'"
       "paymentStatus d' = Paid" "paymentDate d' = Some 55" "transactionId d' = Some ''TXN123''"
       "markAsPaid 1 (Some ''TXN456'') 77 (replace_doc d' [example_record]) =
          (Marked_As_Paid d'', replace_doc d'' (replace_doc d' [example_record]))"
       "Payroll_findById (replace_doc d'' (replace_doc d' [example_record])) 1 = Some d''"
       "paymentStatus d'' = Paid" "paymentDate d'' = Some 77" "transactionId d'' = Some ''TXN456''"
    by blast
  have i1: "doc_id d' = 1" using findById_Some [OF b(2)] by simp
  have i2: "doc_id d'' = 1" using findById_Some [OF b(7)] by simp
  have e1: "replace_doc d' [example_record] = [d']" using i1 by (rule r)
  have e2: "replace_doc d'' [d'] = [d'']" using i2 i1 by (rule r2)
  show ?thesis
    using n a s v b e1 e2 by (auto simp: example_record_simps)
qed


end
